theory Spec2Isabelle
  imports Complex_Main
begin

section \<open>Values, errors and panics\<close>

text \<open>
  Go's \<open>float64\<close>. Only equality of values matters below; the reals stand for the finite
  values, and the three special values that \<open>strconv.ParseFloat\<close> can return are kept
  apart.
\<close>

datatype float64 = Float real | PosInf | NegInf | NaN

text \<open>
  One constructor per \<open>fmt.Errorf\<close> of main.go, carrying the arguments of the format.
  The cause of a library error (\<open>net.Dial\<close>, \<open>io.Copy\<close>, \<open>Close\<close>) is kept as its text.
\<close>

datatype error =
    ErrConnecting string string
  | ErrReading string
  | ErrClosing string
  | ErrParsingOutput string
  | ErrParsingItem error
  | ErrExpected4Tokens string
  | ErrOnlyCelsius string
  | ErrParsingTemperature string

text \<open>
  Run-time panics: a slice expression out of bounds (low, high), an index out of range
  (index, length), a method call on a nil connection, \<open>panic(err)\<close> with the text of
  \<open>err\<close>, and the panic of \<open>prometheus.MustNewConstMetric\<close>.
\<close>

datatype panic =
    SliceBoundsOutOfRange int int
  | IndexOutOfRange int int
  | NilDereference
  | PanicError string
  | PanicInvalidMetric

datatype fault = Err error | Panic panic

section \<open>String functions of the Go library used by main.go\<close>

text \<open>
  \<open>strings.Split(s, sep)\<close> for a non-empty separator: the pieces between the
  leftmost, non-overlapping occurrences of \<open>sep\<close>; always at least one piece.
  \<open>SplitFrom sep cur s\<close> scans \<open>s\<close> with the piece read so far in \<open>cur\<close>.
  (An empty separator, which explodes the string in Go, is not used by main.go; the
  model then returns the string whole.)
\<close>

function SplitFrom :: "string \<Rightarrow> string \<Rightarrow> string \<Rightarrow> string list" where
  "SplitFrom sep cur [] = [cur]"
| "SplitFrom sep cur (c # cs) =
     (if sep \<noteq> [] \<and> take (length sep) (c # cs) = sep
      then cur # SplitFrom sep [] (drop (length sep) (c # cs))
      else SplitFrom sep (cur @ [c]) cs)"
  by pat_completeness auto
termination
  by (relation "measure (\<lambda>(sep, cur, s). length s)") auto

definition Split :: "string \<Rightarrow> string \<Rightarrow> string list" where
  "Split s sep = SplitFrom sep [] s"

text \<open>
  \<open>strings.Fields(s)\<close>, as the library has it: when every byte of \<open>s\<close> is below
  \<open>utf8.RuneSelf\<close> (0x80) the fast path splits at the bytes of the table \<open>asciiSpace\<close>
  (tab, newline, vertical tab, form feed, carriage return, blank); otherwise the
  result is \<open>FieldsFunc(s, unicode.IsSpace)\<close>, which walks over the runes of \<open>s\<close>.
\<close>

definition asciiSpace :: "char \<Rightarrow> bool" where
  "asciiSpace c = (c \<in> set [CHR 0x09, CHR 0x0A, CHR 0x0B, CHR 0x0C, CHR 0x0D, CHR '' ''])"

fun FieldsASCII :: "string \<Rightarrow> string \<Rightarrow> string list" where
  "FieldsASCII cur [] = (if cur = [] then [] else [cur])"
| "FieldsASCII cur (c # cs) =
     (if asciiSpace c
      then (if cur = [] then FieldsASCII [] cs else cur # FieldsASCII [] cs)
      else FieldsASCII (cur @ [c]) cs)"

text \<open>
  The rune at the head of a string of bytes and its width, as \<open>range\<close> over a string
  (and \<open>utf8.DecodeRuneInString\<close>) decode UTF-8: a byte that starts no well-formed
  encoding is the rune \<open>U+FFFD\<close> of width 1. The second byte of an encoding must lie in
  the range its first byte accepts (this excludes overlong encodings, surrogates and
  runes above \<open>U+10FFFF\<close>), the later ones in \<open>0x80..0xBF\<close>.
\<close>

definition DecodeRune :: "nat list \<Rightarrow> nat \<times> nat" where
  "DecodeRune bs =
     (case bs of
        [] \<Rightarrow> (0xFFFD, 0)
      | s0 # r \<Rightarrow>
          if s0 < 0x80 then (s0, 1)
          else if s0 < 0xC2 \<or> 0xF4 < s0 then (0xFFFD, 1)
          else
            let sz = (if s0 < 0xE0 then 2 else if s0 < 0xF0 then 3 else 4 :: nat);
                lo = (if s0 = 0xE0 then 0xA0 else if s0 = 0xF0 then 0x90 else 0x80);
                hi = (if s0 = 0xED then 0x9F else if s0 = 0xF4 then 0x8F else 0xBF)
            in
            if length bs < sz then (0xFFFD, 1)
            else if r ! 0 < lo \<or> hi < r ! 0 then (0xFFFD, 1)
            else if sz \<le> 2 then (s0 mod 0x20 * 0x40 + r ! 0 mod 0x40, 2)
            else if r ! 1 < 0x80 \<or> 0xBF < r ! 1 then (0xFFFD, 1)
            else if sz \<le> 3
              then (s0 mod 0x10 * 0x1000 + r ! 0 mod 0x40 * 0x40 + r ! 1 mod 0x40, 3)
            else if r ! 2 < 0x80 \<or> 0xBF < r ! 2 then (0xFFFD, 1)
            else (s0 mod 0x08 * 0x40000 + r ! 0 mod 0x40 * 0x1000 + r ! 1 mod 0x40 * 0x40
                    + r ! 2 mod 0x40, 4))"

definition DecodeRuneInString :: "string \<Rightarrow> nat \<times> nat" where
  "DecodeRuneInString s = DecodeRune (map of_char s)"

text \<open>
  \<open>unicode.IsSpace\<close>: in Latin-1 the six ASCII spaces, \<open>U+0085\<close> and \<open>U+00A0\<close>; above
  it the runes of the property White_Space.
\<close>

definition IsSpace :: "nat \<Rightarrow> bool" where
  "IsSpace r =
     (if r \<le> 0xFF then r \<in> set [0x09, 0x0A, 0x0B, 0x0C, 0x0D, 0x20, 0x85, 0xA0]
      else r = 0x1680 \<or> (0x2000 \<le> r \<and> r \<le> 0x200A) \<or> r = 0x2028 \<or> r = 0x2029
           \<or> r = 0x202F \<or> r = 0x205F \<or> r = 0x3000)"

text \<open>
  \<open>strings.FieldsFunc(s, f)\<close>: the maximal runs of runes on which \<open>f\<close> is false.
  \<open>FieldsFuncFrom f cur s\<close> walks \<open>s\<close> rune by rune with the bytes of the field read so
  far in \<open>cur\<close>.
\<close>

function FieldsFuncFrom :: "(nat \<Rightarrow> bool) \<Rightarrow> string \<Rightarrow> string \<Rightarrow> string list" where
  "FieldsFuncFrom f cur [] = (if cur = [] then [] else [cur])"
| "FieldsFuncFrom f cur (c # cs) =
     (if f (fst (DecodeRuneInString (c # cs)))
      then (if cur = []
            then FieldsFuncFrom f [] (drop (snd (DecodeRuneInString (c # cs))) (c # cs))
            else cur # FieldsFuncFrom f [] (drop (snd (DecodeRuneInString (c # cs))) (c # cs)))
      else FieldsFuncFrom f (cur @ take (snd (DecodeRuneInString (c # cs))) (c # cs))
             (drop (snd (DecodeRuneInString (c # cs))) (c # cs)))"
  by pat_completeness auto
termination
proof -
  have width: "0 < snd (DecodeRuneInString (c # cs))" for c cs
    by (simp add: DecodeRuneInString_def DecodeRune_def Let_def if_distrib [of snd]
          if_distrib [of "\<lambda>n. 0 < n"] cong del: if_weak_cong)
  have shorter: "length (drop (snd (DecodeRuneInString (c # cs))) (c # cs)) < length (c # cs)"
    for c cs
    using width [of c cs] by simp
  show ?thesis
    by (relation "measure (\<lambda>(f, cur, s). length s)")
       (simp_all only: shorter in_measure wf_measure split_conv)
qed

definition FieldsFunc :: "string \<Rightarrow> (nat \<Rightarrow> bool) \<Rightarrow> string list" where
  "FieldsFunc s f = FieldsFuncFrom f [] s"

definition Fields :: "string \<Rightarrow> string list" where
  "Fields s =
     (if list_ex (\<lambda>c. 0x80 \<le> (of_char c :: nat)) s then FieldsFunc s IsSpace
      else FieldsASCII [] s)"

text \<open>
  The slice expression \<open>s[lo:hi]\<close> on a string: it panics unless
  \<open>0 \<le> lo \<le> hi \<le> len(s)\<close>.
\<close>

definition slice :: "string \<Rightarrow> int \<Rightarrow> int \<Rightarrow> panic + string" where
  "slice s lo hi =
     (if 0 \<le> lo \<and> lo \<le> hi \<and> hi \<le> int (length s)
      then Inr (take (nat (hi - lo)) (drop (nat lo) s))
      else Inl (SliceBoundsOutOfRange lo hi))"

section \<open>The hddtemp parser\<close>

record HddTemperature =
  Device :: string
  Id :: string
  TemperatureCelsius :: float64

text \<open>
  \<open>parseHddTemp\<close> (main.go, 211-232). \<open>strconv.ParseFloat(temp, 64)\<close> is not code of the
  repository: it is the parameter \<open>pf\<close>, \<open>Some f\<close> when the call returns \<open>f\<close> with a nil
  error and \<open>None\<close> when it returns an error.
\<close>

definition parseHddTemp :: "(string \<Rightarrow> float64 option) \<Rightarrow> string \<Rightarrow> error + HddTemperature" where
  "parseHddTemp pf s =
     (let pieces = Split s ''|'' in
      if length pieces \<noteq> 4 then Inl (ErrExpected4Tokens s)
      else
        let dev = pieces ! 0; id' = pieces ! 1; temp = pieces ! 2; unit = pieces ! 3 in
        if unit = ''*''
        then Inr \<lparr>Device = dev, Id = id', TemperatureCelsius = Float (- 1)\<rparr>
        else if unit \<noteq> ''C'' then Inl (ErrOnlyCelsius s)
        else
          (case pf temp of
             None \<Rightarrow> Inl (ErrParsingTemperature temp)
           | Some ftemp \<Rightarrow> Inr \<lparr>Device = dev, Id = id', TemperatureCelsius = ftemp\<rparr>))"

text \<open>
  The loop of \<open>parseHddTemps\<close> (main.go, 200-207) over the items, with the records
  appended so far; the first item that fails ends it with the wrapped error.
\<close>

fun parseItems ::
  "(string \<Rightarrow> float64 option) \<Rightarrow> string list \<Rightarrow> HddTemperature list \<Rightarrow> error + HddTemperature list"
where
  "parseItems pf [] hddtemps = Inr hddtemps"
| "parseItems pf (item # items) hddtemps =
     (case parseHddTemp pf item of
        Inl err \<Rightarrow> Inl (ErrParsingItem err)
      | Inr hddtemp \<Rightarrow> parseItems pf items (hddtemps @ [hddtemp]))"

text \<open>
  \<open>parseHddTemps\<close> (main.go, 195-209): the check of the first byte, the slice
  \<open>s[1:len(s)-1]\<close>, the split on \<open>||\<close> and the loop.
\<close>

definition parseHddTemps :: "(string \<Rightarrow> float64 option) \<Rightarrow> string \<Rightarrow> fault + HddTemperature list" where
  "parseHddTemps pf s =
     (case s of
        [] \<Rightarrow> Inl (Err (ErrParsingOutput s))
      | c # _ \<Rightarrow>
          if c \<noteq> CHR ''|'' then Inl (Err (ErrParsingOutput s))
          else
            (case slice s 1 (int (length s) - 1) of
               Inl p \<Rightarrow> Inl (Panic p)
             | Inr inner \<Rightarrow>
                 (case parseItems pf (Split inner ''||'') [] of
                    Inl err \<Rightarrow> Inl (Err err)
                  | Inr hddtemps \<Rightarrow> Inr hddtemps)))"

section \<open>The response grammar, as an encoder\<close>

text \<open>
  Modelled from the spec: the repository has no encoder, so the one below writes the
  grammar of the spec (section 4.1) out:
  \<^verbatim>\<open>response := '|' record ('||' record)* '|'\<close> and
  \<^verbatim>\<open>record := device '|' id '|' temperature '|' unit\<close>.
  A record whose temperature is the sentinel \<open>-1\<close> is written with unit \<open>*\<close> (and \<open>*\<close>
  for the temperature, as in the spec's example); any other with unit \<open>C\<close> and the text
  \<open>fmt\<close> gives for its temperature. \<open>fmt\<close> is a parameter, as \<open>pf\<close> is.
\<close>

definition encodeRecord :: "(float64 \<Rightarrow> string) \<Rightarrow> HddTemperature \<Rightarrow> string" where
  "encodeRecord fmt r =
     Device r @ ''|'' @ Id r @ ''|'' @
       (if TemperatureCelsius r = Float (- 1) then ''*|*''
        else fmt (TemperatureCelsius r) @ ''|C'')"

fun joinRecords :: "string list \<Rightarrow> string" where
  "joinRecords [] = []"
| "joinRecords [x] = x"
| "joinRecords (x # y # zs) = x @ ''||'' @ joinRecords (y # zs)"

definition encodeResponse :: "(float64 \<Rightarrow> string) \<Rightarrow> HddTemperature list \<Rightarrow> string" where
  "encodeResponse fmt rs = ''|'' @ joinRecords (map (encodeRecord fmt) rs) @ ''|''"

text \<open>
  What keeps an item whole when a response is split on \<open>||\<close>: it has no two
  adjacent pipes and does not end in a pipe.
\<close>

fun sealed :: "string \<Rightarrow> bool" where
  "sealed [] = True"
| "sealed [c] = (c \<noteq> CHR ''|'')"
| "sealed (c # d # r) = ((c \<noteq> CHR ''|'' \<or> d \<noteq> CHR ''|'') \<and> sealed (d # r))"

section \<open>A reading of plain decimal literals\<close>

text \<open>
  A concrete function to put for \<open>pf\<close> in examples: the exact value of a literal
  \<^verbatim>\<open>[+-] digits [. digits]\<close> with at least one digit. \<open>strconv.ParseFloat\<close> returns the
  same value wherever that value is a float64 (12.5, 35, 120); it rounds the others,
  and also reads exponents, hexadecimal literals, infinities and NaN, which this
  function rejects.
\<close>

definition isDigit :: "char \<Rightarrow> bool" where
  "isDigit c = (48 \<le> (of_char c :: nat) \<and> (of_char c :: nat) \<le> 57)"

fun digitsValue :: "string \<Rightarrow> nat \<Rightarrow> nat" where
  "digitsValue [] acc = acc"
| "digitsValue (c # cs) acc = digitsValue cs (10 * acc + (of_char c - 48))"

definition unsignedDecimal :: "string \<Rightarrow> real option" where
  "unsignedDecimal s =
     (let ip = takeWhile isDigit s in
      case dropWhile isDigit s of
        [] \<Rightarrow> if ip = [] then None else Some (real (digitsValue ip 0))
      | c # fp \<Rightarrow>
          if c = CHR ''.'' \<and> list_all isDigit fp \<and> \<not> (ip = [] \<and> fp = [])
          then Some (real (digitsValue (ip @ fp) 0) / 10 ^ length fp)
          else None)"

definition decimalLiteral :: "string \<Rightarrow> float64 option" where
  "decimalLiteral s =
     (case s of
        [] \<Rightarrow> None
      | c # r \<Rightarrow>
          if c = CHR ''-'' then map_option (\<lambda>x. Float (- x)) (unsignedDecimal r)
          else if c = CHR ''+'' then map_option Float (unsignedDecimal r)
          else map_option Float (unsignedDecimal s))"

text \<open>
  And a concrete function to put for \<open>fmt\<close>: the decimal digits of a whole temperature
  that is not negative, which is what the hddtemp daemon itself sends.
\<close>

definition digitChar :: "nat \<Rightarrow> char" where
  "digitChar n = ''0123456789'' ! n"

function showNat :: "nat \<Rightarrow> string" where
  "showNat n = (if n < 10 then [digitChar n] else showNat (n div 10) @ [digitChar (n mod 10)])"
  by pat_completeness auto
termination
  by (relation "measure id") auto

definition formatWhole :: "float64 \<Rightarrow> string" where
  "formatWhole t = (case t of Float x \<Rightarrow> showNat (nat \<lfloor>x\<rfloor>) | _ \<Rightarrow> ''0'')"

text \<open>
  In the same way, for the label check of the metrics library (\<open>utf8.ValidString\<close>):
  a string of ASCII bytes is valid UTF-8.
\<close>

definition asciiString :: "string \<Rightarrow> bool" where
  "asciiString s = list_all (\<lambda>c. (of_char c :: nat) < 128) s"

section \<open>Descriptors and metrics\<close>

record Desc =
  fqName :: string
  helpText :: string
  variableLabels :: "string list"

definition hddTempDesc :: Desc where
  "hddTempDesc = \<lparr>fqName = ''sensor_hddsmart_temperature_celsius'',
     helpText = ''temperature in celsius'', variableLabels = [''device'', ''id'']\<rparr>"

definition LoadDesc :: Desc where
  "LoadDesc = \<lparr>fqName = ''ups_load'', helpText = ''UPS power load (Watt)'',
     variableLabels = [''device'']\<rparr>"

definition StateDesc :: Desc where
  "StateDesc = \<lparr>fqName = ''ups_state'', helpText = ''UPS status (1 -> Normal, 0 -> Not)'',
     variableLabels = [''device'']\<rparr>"

definition BatteryDesc :: Desc where
  "BatteryDesc = \<lparr>fqName = ''ups_battery_capacity'', helpText = ''UPS battery capacity(%)'',
     variableLabels = [''device'']\<rparr>"

definition RtimeDesc :: Desc where
  "RtimeDesc = \<lparr>fqName = ''ups_remaining_runtime'', helpText = ''UPS Remaining Runtime(min)'',
     variableLabels = [''device'']\<rparr>"

definition InVoltageDesc :: Desc where
  "InVoltageDesc = \<lparr>fqName = ''ups_in_voltage'',
     helpText = ''UPS Input Voltage(V): pass-> 1 non_pass -> 0'', variableLabels = [''device'']\<rparr>"

definition OutVoltageDesc :: Desc where
  "OutVoltageDesc = \<lparr>fqName = ''ups_out_voltage'',
     helpText = ''UPS Output Voltage(V): pass-> 1 non_pass -> 0'', variableLabels = [''device'']\<rparr>"

definition TestDesc :: Desc where
  "TestDesc = \<lparr>fqName = ''ups_test_result'', helpText = ''UPS Test Result'',
     variableLabels = [''device'']\<rparr>"

text \<open>A gauge sample, as \<open>prometheus.MustNewConstMetric(desc, GaugeValue, value, labels...)\<close> builds it.\<close>

record Metric =
  desc :: Desc
  val :: float64
  labelValues :: "string list"

text \<open>
  \<open>MustNewConstMetric\<close> panics when the number of label values is not the descriptor's
  number of labels, or when a label value is not valid UTF-8. The second check is the
  library's \<open>utf8.ValidString\<close>: the parameter \<open>valid\<close>.
\<close>

definition MustNewConstMetric ::
  "(string \<Rightarrow> bool) \<Rightarrow> Desc \<Rightarrow> float64 \<Rightarrow> string list \<Rightarrow> panic + Metric" where
  "MustNewConstMetric valid d v lvs =
     (if length lvs = length (variableLabels d) \<and> list_all valid lvs
      then Inr \<lparr>desc = d, val = v, labelValues = lvs\<rparr>
      else Inl PanicInvalidMetric)"

section \<open>The hddtemp collector and its connection\<close>

text \<open>
  The collector's fields. A connection is a handle (a number); \<open>None\<close> is the nil
  \<open>net.Conn\<close> of a collector that never connected.
\<close>

record HddCollector =
  address :: string
  conn :: "nat option"
  buf :: string

text \<open>
  The part of the outside world the collector acts on: the connections that are open,
  and the handle the next successful \<open>net.Dial\<close> returns.
\<close>

record network =
  openConns :: "nat set"
  nextConn :: nat

definition NewHddCollector :: "string \<Rightarrow> HddCollector" where
  "NewHddCollector a = \<lparr>address = a, conn = None, buf = []\<rparr>"

text \<open>
  \<open>Init\<close> (main.go, 166-173). \<open>dial\<close> is what \<open>net.Dial\<close> does this time: \<open>Some cause\<close>
  when it fails, \<open>None\<close> when it connects.
\<close>

definition Init ::
  "HddCollector \<Rightarrow> network \<Rightarrow> string option \<Rightarrow> error option \<times> HddCollector \<times> network" where
  "Init h net dial =
     (case dial of
        Some cause \<Rightarrow> (Some (ErrConnecting (address h) cause), h, net)
      | None \<Rightarrow>
          (None,
           h\<lparr>conn := Some (nextConn net)\<rparr>,
           net\<lparr>openConns := insert (nextConn net) (openConns net),
               nextConn := Suc (nextConn net)\<rparr>))"

text \<open>\<open>conn.Close()\<close>: the handle is no longer open.\<close>

definition closeConn :: "network \<Rightarrow> nat \<Rightarrow> network" where
  "closeConn net c = net\<lparr>openConns := openConns net - {c}\<rparr>"

text \<open>
  \<open>readTempsFromConn\<close> (main.go, 175-186). \<open>stream\<close> is what the peer does this time:
  the bytes \<open>io.Copy\<close> receives, and then the end of the stream (\<open>None\<close>) or a read
  error (\<open>Some cause\<close>). The result comes with the collector and the network as the
  call leaves them.
\<close>

definition readTempsFromConn ::
  "HddCollector \<Rightarrow> network \<Rightarrow> string option \<Rightarrow> string \<times> string option
     \<Rightarrow> (fault + string) \<times> HddCollector \<times> network" where
  "readTempsFromConn h net dial stream =
     (case Init h net dial of
        (Some err, h1, net1) \<Rightarrow> (Inl (Err err), h1, net1)
      | (None, h1, net1) \<Rightarrow>
          let h2 = h1\<lparr>buf := []\<rparr> in
          (case conn h2 of
             None \<Rightarrow> (Inl (Panic NilDereference), h2, net1)
           | Some c \<Rightarrow>
               let h3 = h2\<lparr>buf := buf h2 @ fst stream\<rparr> in
               (case snd stream of
                  Some cause \<Rightarrow> (Inl (Err (ErrReading cause)), h3, net1)
                | None \<Rightarrow> (Inr (buf h3), h3, closeConn net1 c))))"

text \<open>
  The start of \<open>main\<close> (main.go, 344-348): the collector is built and \<open>Init\<close> is called
  once; its error is logged and the program goes on.
\<close>

definition startHddCollector ::
  "string \<Rightarrow> network \<Rightarrow> string option \<Rightarrow> HddCollector \<times> network" where
  "startHddCollector a net dial = snd (Init (NewHddCollector a) net dial)"

datatype logline = LogReadingTemps error | LogParsingTemps error

text \<open>The loop at the end of \<open>HddCollector.Collect\<close> (main.go, 252-258).\<close>

fun sendHddTemps :: "(string \<Rightarrow> bool) \<Rightarrow> HddTemperature list \<Rightarrow> Metric list \<Rightarrow> panic + Metric list" where
  "sendHddTemps valid [] sent = Inr sent"
| "sendHddTemps valid (ht # hts) sent =
     (case MustNewConstMetric valid hddTempDesc (TemperatureCelsius ht) [Device ht, Id ht] of
        Inl p \<Rightarrow> Inl p
      | Inr m \<Rightarrow> sendHddTemps valid hts (sent @ [m]))"

text \<open>
  \<open>HddCollector.Collect\<close> (main.go, 240-259): the metrics sent on the channel (or the
  panic that ends the call), the lines logged, the collector and the network.
\<close>

definition HddCollector_Collect ::
  "(string \<Rightarrow> float64 option) \<Rightarrow> (string \<Rightarrow> bool) \<Rightarrow> HddCollector \<Rightarrow> network
     \<Rightarrow> string option \<Rightarrow> string \<times> string option
     \<Rightarrow> (panic + Metric list) \<times> logline list \<times> HddCollector \<times> network" where
  "HddCollector_Collect pf valid h net dial stream =
     (case readTempsFromConn h net dial stream of
        (Inl (Err err), h1, net1) \<Rightarrow> (Inr [], [LogReadingTemps err], h1, net1)
      | (Inl (Panic p), h1, net1) \<Rightarrow> (Inl p, [], h1, net1)
      | (Inr tempsString, h1, net1) \<Rightarrow>
          (case parseHddTemps pf tempsString of
             Inl (Err err) \<Rightarrow> (Inr [], [LogParsingTemps err], h1, net1)
           | Inl (Panic p) \<Rightarrow> (Inl p, [], h1, net1)
           | Inr hddtemps \<Rightarrow> (sendHddTemps valid hddtemps [], [], h1, net1)))"

section \<open>The UPS collector\<close>

text \<open>\<open>PwrstatCollector.Describe\<close> (main.go, 269-276), in the order sent.\<close>

definition PwrstatCollector_Describe :: "Desc list" where
  "PwrstatCollector_Describe =
     [LoadDesc, StateDesc, BatteryDesc, RtimeDesc, OutVoltageDesc, TestDesc]"

text \<open>
  The status is the map \<open>status.Status\<close>, given as the list of its entries in the order
  in which \<open>range\<close> visits them this time (Go leaves that order open; a key occurs
  once). \<open>status.Status["Model Name"]\<close> is the empty string when the key is missing.
\<close>

definition modelName :: "(string \<times> string) list \<Rightarrow> string" where
  "modelName status = (case map_of status ''Model Name'' of None \<Rightarrow> [] | Some v \<Rightarrow> v)"

text \<open>
  The body that the five numeric branches share (main.go, 286-290, 299-303, 305-309,
  311-315, 317-321): \<open>value_arr[0]\<close> of \<open>strings.Fields(v)\<close>, parsed; a metric when the
  parse has no error, nothing otherwise.
\<close>

definition sendParsed ::
  "(string \<Rightarrow> float64 option) \<Rightarrow> (string \<Rightarrow> bool) \<Rightarrow> Desc \<Rightarrow> string \<Rightarrow> string \<Rightarrow> panic + Metric list" where
  "sendParsed pf valid d v model =
     (case Fields v of
        [] \<Rightarrow> Inl (IndexOutOfRange 0 0)
      | tok # _ \<Rightarrow>
          (case pf tok of
             None \<Rightarrow> Inr []
           | Some value \<Rightarrow>
               (case MustNewConstMetric valid d value [model] of
                  Inl p \<Rightarrow> Inl p
                | Inr m \<Rightarrow> Inr [m])))"

text \<open>One round of the loop of \<open>PwrstatCollector.Collect\<close> (main.go, 283-332).\<close>

definition collectEntry ::
  "(string \<Rightarrow> float64 option) \<Rightarrow> (string \<Rightarrow> bool) \<Rightarrow> string \<Rightarrow> string \<times> string \<Rightarrow> panic + Metric list" where
  "collectEntry pf valid model e =
     (let k = fst e; v = snd e in
      if k = ''Load'' then sendParsed pf valid LoadDesc v model
      else if k = ''State'' then
        (case MustNewConstMetric valid StateDesc (Float (if v = ''Normal'' then 1 else 0)) [model] of
           Inl p \<Rightarrow> Inl p
         | Inr m \<Rightarrow> Inr [m])
      else if k = ''Battery Capacity'' then sendParsed pf valid BatteryDesc v model
      else if k = ''Remaining Runtime'' then sendParsed pf valid RtimeDesc v model
      else if k = ''Utility Voltage'' then sendParsed pf valid InVoltageDesc v model
      else if k = ''Output Voltage'' then sendParsed pf valid OutVoltageDesc v model
      else if k = ''Test Result'' then
        (case Fields v of
           [] \<Rightarrow> Inl (IndexOutOfRange 0 0)
         | tok # _ \<Rightarrow>
             (case MustNewConstMetric valid TestDesc (Float (if tok = ''Passed'' then 1 else 0)) [model] of
                Inl p \<Rightarrow> Inl p
              | Inr m \<Rightarrow> Inr [m]))
      else Inr [])"

fun collectEntries ::
  "(string \<Rightarrow> float64 option) \<Rightarrow> (string \<Rightarrow> bool) \<Rightarrow> string \<Rightarrow> (string \<times> string) list
     \<Rightarrow> Metric list \<Rightarrow> panic + Metric list" where
  "collectEntries pf valid model [] sent = Inr sent"
| "collectEntries pf valid model (e # es) sent =
     (case collectEntry pf valid model e of
        Inl p \<Rightarrow> Inl p
      | Inr ms \<Rightarrow> collectEntries pf valid model es (sent @ ms))"

text \<open>
  \<open>PwrstatCollector.Collect\<close> (main.go, 278-333). \<open>query\<close> is what
  \<open>gopwrstat.NewFromSystem()\<close> returns this time: \<open>Inl\<close> the text of its error, or
  \<open>Inr\<close> the status. The result is the metrics sent when the call returns, or the panic
  that ends it; main.go recovers from no panic.
\<close>

definition PwrstatCollector_Collect ::
  "(string \<Rightarrow> float64 option) \<Rightarrow> (string \<Rightarrow> bool) \<Rightarrow> string + (string \<times> string) list
     \<Rightarrow> panic + Metric list" where
  "PwrstatCollector_Collect pf valid query =
     (case query of
        Inl err \<Rightarrow> Inl (PanicError err)
      | Inr status \<Rightarrow> collectEntries pf valid (modelName status) status [])"

section \<open>Splitting\<close>

lemma SplitFrom_bars_Cons2:
  "SplitFrom ''||'' cur (c # d # r) =
     (if c = CHR ''|'' \<and> d = CHR ''|'' then cur # SplitFrom ''||'' [] r
      else SplitFrom ''||'' (cur @ [c]) (d # r))"
  by simp

lemma SplitFrom_pipe_free:
  "CHR ''|'' \<notin> set a \<Longrightarrow> SplitFrom ''|'' cur a = [cur @ a]"
  by (induction a arbitrary: cur) auto

lemma SplitFrom_pipe_step:
  "CHR ''|'' \<notin> set a \<Longrightarrow>
   SplitFrom ''|'' cur (a @ CHR ''|'' # rest) = (cur @ a) # SplitFrom ''|'' [] rest"
  by (induction a arbitrary: cur) auto

lemma Split_four_fields:
  assumes "CHR ''|'' \<notin> set d" "CHR ''|'' \<notin> set i" "CHR ''|'' \<notin> set t" "CHR ''|'' \<notin> set u"
  shows "Split (d @ ''|'' @ i @ ''|'' @ t @ ''|'' @ u) ''|'' = [d, i, t, u]"
  using assms
  by (simp add: Split_def SplitFrom_pipe_step SplitFrom_pipe_free del: SplitFrom.simps)

lemma SplitFrom_bars_sealed:
  "sealed x \<Longrightarrow> SplitFrom ''||'' cur x = [cur @ x]"
proof (induction x arbitrary: cur rule: sealed.induct)
  case 1
  then show ?case by simp
next
  case (2 c)
  then show ?case by simp
next
  case (3 c d r)
  then show ?case by (simp only: SplitFrom_bars_Cons2 sealed.simps) auto
qed

lemma SplitFrom_bars_step:
  "sealed x \<Longrightarrow>
   SplitFrom ''||'' cur (x @ ''||'' @ rest) = (cur @ x) # SplitFrom ''||'' [] rest"
proof (induction x arbitrary: cur rule: sealed.induct)
  case 1
  then show ?case by simp
next
  case (2 c)
  then show ?case by simp
next
  case (3 c d r)
  then show ?case by (simp only: SplitFrom_bars_Cons2 sealed.simps append_Cons) auto
qed

lemma sealed_pipe_free: "CHR ''|'' \<notin> set a \<Longrightarrow> sealed a"
  by (induction a rule: sealed.induct) auto

lemma sealed_field_pipe:
  "CHR ''|'' \<notin> set a \<Longrightarrow> b \<noteq> [] \<Longrightarrow> hd b \<noteq> CHR ''|'' \<Longrightarrow> sealed b \<Longrightarrow>
   sealed (a @ CHR ''|'' # b)"
proof (induction a rule: sealed.induct)
  case 1
  then show ?case by (cases b) auto
next
  case (2 c)
  then show ?case by (cases b) auto
next
  case (3 c d r)
  then show ?case by auto
qed

section \<open>The frame of a response and the loop over its items\<close>

lemma slice_frame:
  "slice (CHR ''|'' # inner @ [c]) 1 (int (length (CHR ''|'' # inner @ [c])) - 1) = Inr inner"
  by (simp add: slice_def)

lemma parseHddTemps_frame:
  "parseHddTemps pf (CHR ''|'' # inner @ [c]) =
     (case parseItems pf (Split inner ''||'') [] of Inl err \<Rightarrow> Inl (Err err) | Inr hs \<Rightarrow> Inr hs)"
  unfolding parseHddTemps_def using slice_frame [of inner c] by simp

lemma parseItems_bad_item:
  "item \<in> set items \<Longrightarrow> parseHddTemp pf item = Inl e \<Longrightarrow>
   \<exists>e'. parseItems pf items acc = Inl (ErrParsingItem e')"
proof (induction items arbitrary: acc)
  case Nil
  then show ?case by simp
next
  case (Cons x xs)
  then show ?case by (cases "parseHddTemp pf x") auto
qed

section \<open>Claims about the parser\<close>

text \<open>
  C2. A response is a first byte \<open>|\<close>, the text \<open>inner\<close> and a last byte; its records are
  the pieces of \<open>inner\<close> between \<open>||\<close>. When one of them does not split into exactly
  four fields at \<open>|\<close>, \<open>parseHddTemps\<close> returns an error (the wrapped error of an item)
  and no list of records, whatever the other records are.
\<close>

theorem parseHddTemps_wrong_field_count:
  assumes "item \<in> set (Split inner ''||'')"
      and "length (Split item ''|'') \<noteq> 4"
  shows "\<exists>err. parseHddTemps pf (CHR ''|'' # inner @ [c]) = Inl (Err (ErrParsingItem err))"
proof -
  have "parseHddTemp pf item = Inl (ErrExpected4Tokens item)"
    using assms(2) by (simp add: parseHddTemp_def)
  then obtain e' where "parseItems pf (Split inner ''||'') [] = Inl (ErrParsingItem e')"
    using parseItems_bad_item [OF assms(1)] by blast
  then show ?thesis by (simp add: parseHddTemps_frame)
qed

theorem parseHddTemps_wrong_field_count_witness:
  "''sdb|y'' \<in> set (Split ''sda|x|30|C||sdb|y'' ''||'')
   \<and> length (Split ''sdb|y'' ''|'') \<noteq> 4
   \<and> (\<exists>err. parseHddTemps decimalLiteral ''|sda|x|30|C||sdb|y|'' = Inl (Err (ErrParsingItem err)))"
  using parseHddTemps_wrong_field_count
    [of "''sdb|y''" "''sda|x|30|C||sdb|y''" decimalLiteral "CHR ''|''"]
  by (simp add: Split_def)

text \<open>
  C3. A record of four fields whose unit is \<open>*\<close> parses to the temperature \<open>-1\<close>,
  whatever its temperature field holds and whatever the float parser would make of it:
  the result does not depend on \<open>pf\<close>.
\<close>

theorem parseHddTemp_star_unit:
  "Split s ''|'' = [dev, i, temp, ''*''] \<Longrightarrow>
   parseHddTemp pf s = Inr \<lparr>Device = dev, Id = i, TemperatureCelsius = Float (- 1)\<rparr>"
  by (simp add: parseHddTemp_def)

theorem parseHddTemp_star_unit_witness:
  "Split ''sda|x|garbage|*'' ''|'' = [''sda'', ''x'', ''garbage'', ''*'']
   \<and> parseHddTemp (\<lambda>s. None) ''sda|x|garbage|*''
       = Inr \<lparr>Device = ''sda'', Id = ''x'', TemperatureCelsius = Float (- 1)\<rparr>"
  using parseHddTemp_star_unit
    [of "''sda|x|garbage|*''" "''sda''" "''x''" "''garbage''" "\<lambda>s. None"]
  by (simp add: Split_def)

text \<open>
  C5. The one-byte response \<open>|\<close> is not empty and begins with \<open>|\<close>, and on it
  \<open>parseHddTemps\<close> returns neither records nor an error: the slice \<open>s[1:0]\<close> panics.
\<close>

theorem parseHddTemps_single_pipe_panics:
  "''|'' \<noteq> [] \<and> hd ''|'' = CHR ''|''
   \<and> parseHddTemps pf ''|'' = Inl (Panic (SliceBoundsOutOfRange 1 0))"
  by (simp add: parseHddTemps_def slice_def)

text \<open>
  C10. The last byte of a response is dropped unread: for a response of at least two
  bytes that begins with \<open>|\<close>, putting any byte \<open>c\<close> in place of the last one changes
  nothing in what \<open>parseHddTemps\<close> returns. (The witness is a response that ends in \<open>X\<close>
  and parses.)
\<close>

theorem parseHddTemps_last_byte_ignored:
  assumes "2 \<le> length s" and "hd s = CHR ''|''"
  shows "parseHddTemps pf (butlast s @ [c]) = parseHddTemps pf s"
proof -
  from assms obtain t where s: "s = CHR ''|'' # t" and t: "t \<noteq> []"
    by (cases s) (auto simp: Suc_le_eq)
  from t obtain inner l where tl: "t = inner @ [l]"
    by (metis append_butlast_last_id)
  have a: "butlast s @ [c] = CHR ''|'' # inner @ [c]"
    by (simp add: s tl)
  have b: "s = CHR ''|'' # inner @ [l]"
    by (simp add: s tl)
  show ?thesis
    by (simp only: a parseHddTemps_frame [of pf inner c])
       (simp only: b parseHddTemps_frame [of pf inner l])
qed

theorem parseHddTemps_last_byte_ignored_witness:
  "2 \<le> length ''|sda|x|*|*|'' \<and> hd ''|sda|x|*|*|'' = CHR ''|''
   \<and> parseHddTemps decimalLiteral ''|sda|x|*|*X'' = parseHddTemps decimalLiteral ''|sda|x|*|*|''
   \<and> parseHddTemps decimalLiteral ''|sda|x|*|*X''
       = Inr [\<lparr>Device = ''sda'', Id = ''x'', TemperatureCelsius = Float (- 1)\<rparr>]"
  using parseHddTemps_last_byte_ignored [of "''|sda|x|*|*|''" decimalLiteral "CHR ''X''"]
  by (simp add: parseHddTemps_def slice_def Split_def parseHddTemp_def)

section \<open>Well-formed records\<close>

lemma hd_not_pipe:
  "a \<noteq> [] \<Longrightarrow> CHR ''|'' \<notin> set a \<Longrightarrow> hd a \<noteq> CHR ''|''"
  by (cases a) auto

lemma sealed_record:
  assumes "CHR ''|'' \<notin> set d" "CHR ''|'' \<notin> set i" "CHR ''|'' \<notin> set t" "CHR ''|'' \<notin> set u"
      and "i \<noteq> []" "t \<noteq> []" "u \<noteq> []"
  shows "sealed (d @ ''|'' @ i @ ''|'' @ t @ ''|'' @ u)"
proof -
  have u: "sealed u" "hd u \<noteq> CHR ''|''"
    using assms(4,7) by (simp_all add: sealed_pipe_free hd_not_pipe)
  have tu: "sealed (t @ CHR ''|'' # u)"
    using assms(3,7) u by (simp add: sealed_field_pipe)
  have itu: "sealed (i @ CHR ''|'' # t @ CHR ''|'' # u)"
    using assms(2,3,6) tu sealed_field_pipe [of i "t @ CHR ''|'' # u"]
    by (simp add: hd_not_pipe)
  have "sealed (d @ CHR ''|'' # i @ CHR ''|'' # t @ CHR ''|'' # u)"
    using assms(1,2,5) itu sealed_field_pipe [of d "i @ CHR ''|'' # t @ CHR ''|'' # u"]
    by (simp add: hd_not_pipe)
  then show ?thesis by simp
qed

lemma Split_joinRecords:
  "xs \<noteq> [] \<Longrightarrow> \<forall>x\<in>set xs. sealed x \<Longrightarrow> Split (joinRecords xs) ''||'' = xs"
proof (induction xs rule: joinRecords.induct)
  case 1
  then show ?case by simp
next
  case (2 x)
  then show ?case by (simp add: Split_def SplitFrom_bars_sealed del: SplitFrom.simps)
next
  case (3 x y zs)
  then have rest: "SplitFrom ''||'' [] (joinRecords (y # zs)) = y # zs"
    by (simp add: Split_def)
  have "sealed x" using 3 by simp
  then have "SplitFrom ''||'' [] (x @ ''||'' @ joinRecords (y # zs))
             = ([] @ x) # SplitFrom ''||'' [] (joinRecords (y # zs))"
    by (rule SplitFrom_bars_step)
  then show ?case
    by (simp only: Split_def joinRecords.simps rest append_Nil)
qed

lemma parseItems_map:
  "\<forall>r\<in>set rs. parseHddTemp pf (enc r) = Inr r \<Longrightarrow>
   parseItems pf (map enc rs) acc = Inr (acc @ rs)"
  by (induction rs arbitrary: acc) auto

lemma encodeRecord_sealed:
  assumes "CHR ''|'' \<notin> set (Device r)" "CHR ''|'' \<notin> set (Id r)" "Id r \<noteq> []"
      and "TemperatureCelsius r \<noteq> Float (- 1) \<Longrightarrow>
             CHR ''|'' \<notin> set (fmt (TemperatureCelsius r)) \<and> fmt (TemperatureCelsius r) \<noteq> []"
  shows "sealed (encodeRecord fmt r)"
proof (cases "TemperatureCelsius r = Float (- 1)")
  case True
  have "sealed (Device r @ ''|'' @ Id r @ ''|'' @ ''*'' @ ''|'' @ ''*'')"
    using assms(1-3) by (intro sealed_record) simp_all
  then show ?thesis using True by (simp add: encodeRecord_def)
next
  case False
  have "sealed (Device r @ ''|'' @ Id r @ ''|'' @ fmt (TemperatureCelsius r) @ ''|'' @ ''C'')"
    using assms False by (intro sealed_record) simp_all
  then show ?thesis using False by (simp add: encodeRecord_def)
qed

lemma parseHddTemp_encodeRecord:
  assumes "CHR ''|'' \<notin> set (Device r)" "CHR ''|'' \<notin> set (Id r)"
      and "TemperatureCelsius r \<noteq> Float (- 1) \<Longrightarrow>
             CHR ''|'' \<notin> set (fmt (TemperatureCelsius r))
             \<and> pf (fmt (TemperatureCelsius r)) = Some (TemperatureCelsius r)"
  shows "parseHddTemp pf (encodeRecord fmt r) = Inr r"
proof (cases "TemperatureCelsius r = Float (- 1)")
  case True
  have "Split (Device r @ ''|'' @ Id r @ ''|'' @ ''*'' @ ''|'' @ ''*'') ''|''
        = [Device r, Id r, ''*'', ''*'']"
    using assms(1,2) by (intro Split_four_fields) simp_all
  then show ?thesis using True by (cases r) (simp add: encodeRecord_def parseHddTemp_def)
next
  case False
  have "Split (Device r @ ''|'' @ Id r @ ''|'' @ fmt (TemperatureCelsius r) @ ''|'' @ ''C'') ''|''
        = [Device r, Id r, fmt (TemperatureCelsius r), ''C'']"
    using assms False by (intro Split_four_fields) simp_all
  then show ?thesis
    using False assms(3) by (cases r) (simp add: encodeRecord_def parseHddTemp_def)
qed

section \<open>Claims about whole responses\<close>

text \<open>
  C1, as amended. In a response \<open>|d1|i1|12.5|C||d2|i2|*|*|\<close> whose four names hold no
  pipe and whose two ids are not empty, and with a float parser that reads \<open>12.5\<close> as
  12.5, \<open>parseHddTemps\<close> returns exactly the two records, in this order. (The devices
  may be empty.)
\<close>

theorem parseHddTemps_two_records:
  assumes "CHR ''|'' \<notin> set d1" "CHR ''|'' \<notin> set i1" "CHR ''|'' \<notin> set d2" "CHR ''|'' \<notin> set i2"
      and "i1 \<noteq> []" "i2 \<noteq> []"
      and "pf ''12.5'' = Some (Float 12.5)"
  shows "parseHddTemps pf (''|'' @ d1 @ ''|'' @ i1 @ ''|12.5|C||'' @ d2 @ ''|'' @ i2 @ ''|*|*|'')
         = Inr [\<lparr>Device = d1, Id = i1, TemperatureCelsius = Float 12.5\<rparr>,
                \<lparr>Device = d2, Id = i2, TemperatureCelsius = Float (- 1)\<rparr>]"
proof -
  let ?x1 = "d1 @ ''|'' @ i1 @ ''|'' @ ''12.5'' @ ''|'' @ ''C''"
  let ?x2 = "d2 @ ''|'' @ i2 @ ''|'' @ ''*'' @ ''|'' @ ''*''"
  have s1: "sealed ?x1"
    using assms(1,2,5) by (intro sealed_record) simp_all
  have s2: "sealed ?x2"
    using assms(3,4,6) by (intro sealed_record) simp_all
  have sp: "Split (?x1 @ ''||'' @ ?x2) ''||'' = [?x1, ?x2]"
    unfolding Split_def
    by (simp only: SplitFrom_bars_step [OF s1] SplitFrom_bars_sealed [OF s2] append_Nil)
  have p1: "parseHddTemp pf ?x1 = Inr \<lparr>Device = d1, Id = i1, TemperatureCelsius = Float 12.5\<rparr>"
    using assms(1,2,7) Split_four_fields [of d1 i1 "''12.5''" "''C''"]
    by (simp add: parseHddTemp_def)
  have p2: "parseHddTemp pf ?x2 = Inr \<lparr>Device = d2, Id = i2, TemperatureCelsius = Float (- 1)\<rparr>"
    using assms(3,4) Split_four_fields [of d2 i2 "''*''" "''*''"]
    by (simp add: parseHddTemp_def)
  have fr: "''|'' @ d1 @ ''|'' @ i1 @ ''|12.5|C||'' @ d2 @ ''|'' @ i2 @ ''|*|*|''
            = CHR ''|'' # (?x1 @ ''||'' @ ?x2) @ [CHR ''|'']"
    by simp
  have items: "parseItems pf [?x1, ?x2] []
      = Inr [\<lparr>Device = d1, Id = i1, TemperatureCelsius = Float 12.5\<rparr>,
             \<lparr>Device = d2, Id = i2, TemperatureCelsius = Float (- 1)\<rparr>]"
    using p1 p2 by simp
  show ?thesis
    by (simp only: fr parseHddTemps_frame sp items sum.case)
qed

theorem parseHddTemps_two_records_witness:
  "CHR ''|'' \<notin> set ''/dev/sda'' \<and> CHR ''|'' \<notin> set ''ST3500'' \<and> CHR ''|'' \<notin> set ''''
   \<and> CHR ''|'' \<notin> set ''WDC'' \<and> ''ST3500'' \<noteq> [] \<and> ''WDC'' \<noteq> []
   \<and> decimalLiteral ''12.5'' = Some (Float 12.5)
   \<and> parseHddTemps decimalLiteral ''|/dev/sda|ST3500|12.5|C|||WDC|*|*|''
       = Inr [\<lparr>Device = ''/dev/sda'', Id = ''ST3500'', TemperatureCelsius = Float 12.5\<rparr>,
              \<lparr>Device = '''', Id = ''WDC'', TemperatureCelsius = Float (- 1)\<rparr>]"
  using parseHddTemps_two_records [of "''/dev/sda''" "''ST3500''" "''''" "''WDC''" decimalLiteral]
  by (simp add: decimalLiteral_def unsignedDecimal_def isDigit_def)

text \<open>
  C1 as stated fails where an id is empty: with \<open>d1 = sda\<close>, \<open>i1\<close> empty, \<open>d2 = sdb\<close> and
  \<open>i2 = x\<close> the response is \<open>|sda||12.5|C||sdb|x|*|*|\<close>, the two pipes around the empty
  id are read as a record separator, and the first item is \<open>sda\<close> alone.
\<close>

theorem parseHddTemps_two_records_empty_id:
  "decimalLiteral ''12.5'' = Some (Float 12.5)
   \<and> parseHddTemps decimalLiteral
        (''|'' @ ''sda'' @ ''|'' @ '''' @ ''|12.5|C||'' @ ''sdb'' @ ''|'' @ ''x'' @ ''|*|*|'')
       = Inl (Err (ErrParsingItem (ErrExpected4Tokens ''sda'')))"
  by (simp add: decimalLiteral_def unsignedDecimal_def isDigit_def
        parseHddTemps_def slice_def Split_def parseHddTemp_def)

text \<open>
  C9, as amended. Take a list of records that is not empty, whose devices and ids hold
  no pipe and whose ids are not empty, and a formatter whose text for each temperature
  other than \<open>-1\<close> holds no pipe, is not empty and is read back to that temperature by
  the float parser. Encoding the list by the grammar and parsing the response gives
  the same records in the same order.
\<close>

theorem parseHddTemps_encodeResponse:
  assumes "rs \<noteq> []"
      and "\<forall>r\<in>set rs. CHR ''|'' \<notin> set (Device r) \<and> CHR ''|'' \<notin> set (Id r) \<and> Id r \<noteq> []"
      and "\<forall>r\<in>set rs. TemperatureCelsius r \<noteq> Float (- 1) \<longrightarrow>
             CHR ''|'' \<notin> set (fmt (TemperatureCelsius r)) \<and> fmt (TemperatureCelsius r) \<noteq> []
             \<and> pf (fmt (TemperatureCelsius r)) = Some (TemperatureCelsius r)"
  shows "parseHddTemps pf (encodeResponse fmt rs) = Inr rs"
proof -
  let ?xs = "map (encodeRecord fmt) rs"
  have "\<forall>x\<in>set ?xs. sealed x"
    using assms(2,3) by (auto intro!: encodeRecord_sealed)
  then have sp: "Split (joinRecords ?xs) ''||'' = ?xs"
    using assms(1) by (intro Split_joinRecords) simp_all
  have "\<forall>r\<in>set rs. parseHddTemp pf (encodeRecord fmt r) = Inr r"
    using assms(2,3) by (auto intro!: parseHddTemp_encodeRecord)
  then have items: "parseItems pf ?xs [] = Inr rs"
    using parseItems_map [of rs pf "encodeRecord fmt" "[]"] by simp
  have fr: "encodeResponse fmt rs = CHR ''|'' # joinRecords ?xs @ [CHR ''|'']"
    by (simp add: encodeResponse_def)
  show ?thesis
    by (simp only: fr parseHddTemps_frame sp items sum.case)
qed

theorem parseHddTemps_encodeResponse_witness:
  "encodeResponse formatWhole
        [\<lparr>Device = ''/dev/sda'', Id = ''ST3500'', TemperatureCelsius = Float 35\<rparr>,
         \<lparr>Device = '''', Id = ''WDC'', TemperatureCelsius = Float (- 1)\<rparr>]
       = ''|/dev/sda|ST3500|35|C|||WDC|*|*|''
   \<and> decimalLiteral (formatWhole (Float 35)) = Some (Float 35)
   \<and> parseHddTemps decimalLiteral
     (encodeResponse formatWhole
        [\<lparr>Device = ''/dev/sda'', Id = ''ST3500'', TemperatureCelsius = Float 35\<rparr>,
         \<lparr>Device = '''', Id = ''WDC'', TemperatureCelsius = Float (- 1)\<rparr>])
   = Inr [\<lparr>Device = ''/dev/sda'', Id = ''ST3500'', TemperatureCelsius = Float 35\<rparr>,
          \<lparr>Device = '''', Id = ''WDC'', TemperatureCelsius = Float (- 1)\<rparr>]"
  using parseHddTemps_encodeResponse
    [of "[\<lparr>Device = ''/dev/sda'', Id = ''ST3500'', TemperatureCelsius = Float 35\<rparr>,
          \<lparr>Device = '''', Id = ''WDC'', TemperatureCelsius = Float (- 1)\<rparr>]"
        formatWhole decimalLiteral]
  by (simp add: decimalLiteral_def unsignedDecimal_def isDigit_def formatWhole_def digitChar_def
        encodeResponse_def encodeRecord_def)

text \<open>
  C9 as stated fails for a record whose id is empty: its encoding \<open>|sda||*|*|\<close> holds
  the record separator, and the parse ends with an error.
\<close>

theorem parseHddTemps_encodeResponse_empty_id:
  "encodeResponse formatWhole [\<lparr>Device = ''sda'', Id = '''', TemperatureCelsius = Float (- 1)\<rparr>]
     = ''|sda||*|*|''
   \<and> parseHddTemps decimalLiteral
       (encodeResponse formatWhole [\<lparr>Device = ''sda'', Id = '''', TemperatureCelsius = Float (- 1)\<rparr>])
     = Inl (Err (ErrParsingItem (ErrExpected4Tokens ''sda'')))"
  by (simp add: encodeResponse_def encodeRecord_def
        parseHddTemps_def slice_def Split_def parseHddTemp_def)

section \<open>Claims about the connection\<close>

lemma readTempsFromConn_dial_failure:
  "readTempsFromConn h net (Some cause) stream
     = (Inl (Err (ErrConnecting (address h) cause)), h, net)"
  by (simp add: readTempsFromConn_def Init_def)

lemma readTempsFromConn_success:
  "readTempsFromConn h net None (data, None)
     = (Inr data,
        h\<lparr>conn := Some (nextConn net), buf := data\<rparr>,
        net\<lparr>openConns := openConns net - {nextConn net}, nextConn := Suc (nextConn net)\<rparr>)"
  by (simp add: readTempsFromConn_def Init_def closeConn_def)

text \<open>
  C4 fails on the code. When the dial succeeds and \<open>io.Copy\<close> ends with a read error,
  \<open>readTempsFromConn\<close> returns the error through the early return of line 182 and the
  connection it opened is still among the open ones.
\<close>

theorem readTempsFromConn_read_failure_leaves_open:
  "readTempsFromConn h net None (data, Some cause)
     = (Inl (Err (ErrReading cause)),
        h\<lparr>conn := Some (nextConn net), buf := data\<rparr>,
        net\<lparr>openConns := insert (nextConn net) (openConns net), nextConn := Suc (nextConn net)\<rparr>)
   \<and> nextConn net \<in> openConns (snd (snd (readTempsFromConn h net None (data, Some cause))))"
  by (simp add: readTempsFromConn_def Init_def)

text \<open>
  The connection that \<open>main\<close> opens at the start is never closed either: after a start
  and one cycle that succeeds, connection 0 is still open.
\<close>

lemma startup_connection_stays_open:
  "(case startHddCollector ''10.0.10.6:7634'' \<lparr>openConns = {}, nextConn = 0\<rparr> None of
      (h, net) \<Rightarrow> snd (snd (readTempsFromConn h net None (''|sda|x|30|C|'', None))))
   = \<lparr>openConns = {0}, nextConn = 2\<rparr>"
  by (simp add: startHddCollector_def NewHddCollector_def readTempsFromConn_def Init_def
        closeConn_def)

section \<open>Claims about the UPS collector\<close>

text \<open>
  A failed status query: \<open>PwrstatCollector.Collect\<close> does not return, it panics with
  the error, and nothing in main.go recovers. A failure of the hddtemp collector (the
  dial, or the read) is logged instead, and its \<open>Collect\<close> returns with no metric sent.
  What becomes of the panic is for the caller of \<open>Collect\<close> to decide, which is the
  metrics library and not main.go.
\<close>

lemma PwrstatCollector_Collect_query_failure_panics:
  "PwrstatCollector_Collect pf valid (Inl err) = Inl (PanicError err)
   \<and> fst (HddCollector_Collect pf valid h net (Some cause) stream) = Inr []
   \<and> fst (HddCollector_Collect pf valid h net None (data, Some cause)) = Inr []"
  by (simp add: PwrstatCollector_Collect_def HddCollector_Collect_def readTempsFromConn_def
        Init_def)

lemma HddCollector_Collect_dial_failure:
  "HddCollector_Collect pf valid h net (Some cause) stream
     = (Inr [], [LogReadingTemps (ErrConnecting (address h) cause)], h, net)"
  by (simp add: HddCollector_Collect_def readTempsFromConn_def Init_def)

lemma HddCollector_Collect_parse_error:
  "parseHddTemps pf data = Inl (Err e) \<Longrightarrow>
   fst (HddCollector_Collect pf valid h net None (data, None)) = Inr []
   \<and> fst (snd (HddCollector_Collect pf valid h net None (data, None))) = [LogParsingTemps e]"
  by (simp add: HddCollector_Collect_def readTempsFromConn_def Init_def)

lemma asciiSpace_below: "asciiSpace c \<Longrightarrow> (of_char c :: nat) < 0x80"
  by (auto simp: asciiSpace_def)

lemma FieldsASCII_spaces: "list_all asciiSpace v \<Longrightarrow> FieldsASCII [] v = []"
  by (induction v) simp_all

lemma Fields_spaces: "list_all asciiSpace v \<Longrightarrow> Fields v = []"
proof -
  assume a: "list_all asciiSpace v"
  then have "\<not> list_ex (\<lambda>c. 0x80 \<le> (of_char c :: nat)) v"
    by (induction v) (auto dest: asciiSpace_below)
  then show ?thesis using a by (simp add: Fields_def FieldsASCII_spaces)
qed

text \<open>
  Outside ASCII the fields end at the runes of \<open>unicode.IsSpace\<close>: a no-break space
  (\<open>U+00A0\<close>, the bytes \<open>C2 A0\<close>) parts \<open>120\<close> from \<open>V\<close>, and a value that holds nothing
  else has no field.
\<close>

lemma Fields_no_break_space:
  "Fields (''120'' @ [CHR 0xC2, CHR 0xA0] @ ''V'') = [''120'', ''V'']"
  by (simp add: Fields_def FieldsFunc_def DecodeRuneInString_def DecodeRune_def IsSpace_def)

lemma Fields_no_break_space_only:
  "Fields [CHR 0xC2, CHR 0xA0] = []"
  by (simp add: Fields_def FieldsFunc_def DecodeRuneInString_def DecodeRune_def IsSpace_def)

lemma sendParsed_unparseable:
  "Fields v = tok # rest \<Longrightarrow> pf tok = None \<Longrightarrow> sendParsed pf valid d v model = Inr []"
  by (simp add: sendParsed_def)

lemma sendParsed_no_token:
  "Fields v = [] \<Longrightarrow> sendParsed pf valid d v model = Inl (IndexOutOfRange 0 0)"
  by (simp add: sendParsed_def)

text \<open>
  C7 fails on the code. A field whose value has a first token that does not parse is
  skipped (\<open>sendParsed_unparseable\<close>), but a value with no token at all makes
  \<open>value_arr[0]\<close> panic: here \<open>Load\<close> is blank, and the cycle ends in the panic with
  the battery capacity never sent.
\<close>

theorem PwrstatCollector_Collect_blank_value_panics:
  "PwrstatCollector_Collect decimalLiteral asciiString
     (Inr [(''Model Name'', ''CP1500''), (''State'', ''Normal''), (''Load'', ''   ''),
           (''Battery Capacity'', ''100 %'')])
   = Inl (IndexOutOfRange 0 0)"
  by (simp add: PwrstatCollector_Collect_def modelName_def collectEntry_def sendParsed_def
        MustNewConstMetric_def StateDesc_def asciiString_def Fields_def asciiSpace_def)

lemma InVoltageDesc_distinct:
  "LoadDesc \<noteq> InVoltageDesc" "StateDesc \<noteq> InVoltageDesc" "BatteryDesc \<noteq> InVoltageDesc"
  "RtimeDesc \<noteq> InVoltageDesc" "OutVoltageDesc \<noteq> InVoltageDesc" "TestDesc \<noteq> InVoltageDesc"
  by (simp_all add: LoadDesc_def StateDesc_def BatteryDesc_def RtimeDesc_def
        OutVoltageDesc_def TestDesc_def InVoltageDesc_def)

lemma MustNewConstMetric_desc:
  "MustNewConstMetric valid d v lvs = Inr m \<Longrightarrow> desc m = d"
  by (auto simp: MustNewConstMetric_def split: if_splits)

lemma sendParsed_returns:
  assumes "sendParsed pf valid d v model = Inr ms"
  shows "(\<exists>m\<in>set ms. desc m = d') \<longleftrightarrow>
         (d = d' \<and> (\<exists>tok rest x. Fields v = tok # rest \<and> pf tok = Some x))"
  using assms
  by (auto simp: sendParsed_def dest: MustNewConstMetric_desc
      split: list.splits option.splits sum.splits)

lemma collectEntry_InVoltage:
  assumes "collectEntry pf valid model (k, v) = Inr ms"
  shows "(\<exists>m\<in>set ms. desc m = InVoltageDesc) \<longleftrightarrow>
         (k = ''Utility Voltage'' \<and> (\<exists>tok rest x. Fields v = tok # rest \<and> pf tok = Some x))"
proof -
  consider (parsed) d where "sendParsed pf valid d v model = Inr ms"
      "d = InVoltageDesc \<longleftrightarrow> k = ''Utility Voltage''"
    | (other) "\<forall>m\<in>set ms. desc m \<noteq> InVoltageDesc" "k \<noteq> ''Utility Voltage''"
    using assms InVoltageDesc_distinct
    by (auto simp: collectEntry_def dest!: MustNewConstMetric_desc
        split: if_splits sum.splits list.splits)
  then show ?thesis
  proof cases
    case parsed
    then show ?thesis using sendParsed_returns [OF parsed(1), of InVoltageDesc] by simp
  next
    case other
    then show ?thesis by auto
  qed
qed

lemma collectEntries_InVoltage:
  "collectEntries pf valid model es sent = Inr ms \<Longrightarrow>
   (\<exists>m\<in>set ms. desc m = InVoltageDesc) \<longleftrightarrow>
     ((\<exists>m\<in>set sent. desc m = InVoltageDesc)
      \<or> (\<exists>v tok rest x. (''Utility Voltage'', v) \<in> set es \<and> Fields v = tok # rest \<and> pf tok = Some x))"
proof (induction es arbitrary: sent)
  case Nil
  then show ?case by auto
next
  case (Cons e es)
  obtain k v where e: "e = (k, v)" by (cases e)
  from Cons.prems obtain ms' where
    step: "collectEntry pf valid model (k, v) = Inr ms'" and
    rest: "collectEntries pf valid model es (sent @ ms') = Inr ms"
    by (auto simp: e split: sum.splits)
  show ?case
    using Cons.IH [OF rest] collectEntry_InVoltage [OF step]
    by (auto simp: e)
qed

lemma InVoltageDesc_not_described:
  "InVoltageDesc \<notin> set PwrstatCollector_Describe"
  using InVoltageDesc_distinct by (auto simp: PwrstatCollector_Describe_def)

text \<open>
  C8, as amended. \<open>Collect\<close> uses the input-voltage descriptor: on a cycle that returns,
  a sample of \<open>InVoltageDesc\<close> is among the metrics sent exactly when the status has a
  \<open>Utility Voltage\<close> entry whose value has a first token that the float parser reads.
\<close>

theorem InVoltageDesc_sent_iff:
  assumes "PwrstatCollector_Collect pf valid (Inr status) = Inr ms"
  shows "(\<exists>m\<in>set ms. desc m = InVoltageDesc) \<longleftrightarrow>
         (\<exists>v tok rest x. (''Utility Voltage'', v) \<in> set status
            \<and> Fields v = tok # rest \<and> pf tok = Some x)"
  using assms collectEntries_InVoltage [of pf valid "modelName status" status "[]" ms]
  by (simp add: PwrstatCollector_Collect_def)

theorem InVoltageDesc_sent_iff_witness:
  "PwrstatCollector_Collect decimalLiteral asciiString
     (Inr [(''Model Name'', ''CP1500''), (''State'', ''Normal''), (''Utility Voltage'', ''121 V'')])
   = Inr [\<lparr>desc = StateDesc, val = Float 1, labelValues = [''CP1500'']\<rparr>,
          \<lparr>desc = InVoltageDesc, val = Float 121, labelValues = [''CP1500'']\<rparr>]
   \<and> (\<exists>m\<in>set [\<lparr>desc = StateDesc, val = Float 1, labelValues = [''CP1500'']\<rparr>,
          \<lparr>desc = InVoltageDesc, val = Float 121, labelValues = [''CP1500'']\<rparr>].
         desc m = InVoltageDesc)
   \<and> (\<exists>v tok rest x.
         (''Utility Voltage'', v)
           \<in> set [(''Model Name'', ''CP1500''), (''State'', ''Normal''), (''Utility Voltage'', ''121 V'')]
         \<and> Fields v = tok # rest \<and> decimalLiteral tok = Some x)"
proof -
  have run: "PwrstatCollector_Collect decimalLiteral asciiString
     (Inr [(''Model Name'', ''CP1500''), (''State'', ''Normal''), (''Utility Voltage'', ''121 V'')])
   = Inr [\<lparr>desc = StateDesc, val = Float 1, labelValues = [''CP1500'']\<rparr>,
          \<lparr>desc = InVoltageDesc, val = Float 121, labelValues = [''CP1500'']\<rparr>]"
    by (simp add: PwrstatCollector_Collect_def modelName_def collectEntry_def sendParsed_def
        MustNewConstMetric_def StateDesc_def InVoltageDesc_def asciiString_def Fields_def
        asciiSpace_def decimalLiteral_def unsignedDecimal_def isDigit_def)
  have sent: "\<exists>m\<in>set [\<lparr>desc = StateDesc, val = Float 1, labelValues = [''CP1500'']\<rparr>,
          \<lparr>desc = InVoltageDesc, val = Float 121, labelValues = [''CP1500'']\<rparr>].
         desc m = InVoltageDesc"
    by simp
  show ?thesis
    using run sent InVoltageDesc_sent_iff [OF run]
    by blast
qed

text \<open>
  C8 as stated fails on a status with a utility voltage: the sample sent is one of
  \<open>InVoltageDesc\<close>.
\<close>

theorem PwrstatCollector_Collect_sends_InVoltageDesc:
  "PwrstatCollector_Collect decimalLiteral asciiString
     (Inr [(''Model Name'', ''CP1500''), (''Utility Voltage'', ''120 V'')])
   = Inr [\<lparr>desc = InVoltageDesc, val = Float 120, labelValues = [''CP1500'']\<rparr>]"
  by (simp add: PwrstatCollector_Collect_def modelName_def collectEntry_def sendParsed_def
        MustNewConstMetric_def InVoltageDesc_def asciiString_def Fields_def asciiSpace_def
        decimalLiteral_def unsignedDecimal_def isDigit_def)

text \<open>
  With a no-break space in place of the blank the utility voltage is sent all the same,
  and a value of nothing but a no-break space ends the cycle in the panic of
  \<open>value_arr[0]\<close>.
\<close>

lemma PwrstatCollector_Collect_no_break_space:
  "PwrstatCollector_Collect decimalLiteral asciiString
     (Inr [(''Model Name'', ''CP1500''),
           (''Utility Voltage'', ''120'' @ [CHR 0xC2, CHR 0xA0] @ ''V'')])
   = Inr [\<lparr>desc = InVoltageDesc, val = Float 120, labelValues = [''CP1500'']\<rparr>]"
  using Fields_no_break_space
  by (simp add: PwrstatCollector_Collect_def modelName_def collectEntry_def sendParsed_def
        MustNewConstMetric_def InVoltageDesc_def asciiString_def
        decimalLiteral_def unsignedDecimal_def isDigit_def)

lemma PwrstatCollector_Collect_no_break_space_only:
  "PwrstatCollector_Collect pf valid (Inr [(''Utility Voltage'', [CHR 0xC2, CHR 0xA0])])
   = Inl (IndexOutOfRange 0 0)"
  using Fields_no_break_space_only
  by (simp add: PwrstatCollector_Collect_def modelName_def collectEntry_def sendParsed_def)

end
